theory Spec2Isabelle
  imports Complex_Main "HOL-Library.Word" "HOL-Library.Sublist"
begin

unbundle bit_operations_syntax

section \<open>JavaScript values that the worker sees\<close>

text \<open>
  The worker \<^verbatim>\<open>src/index.ts\<close> reads its request body with \<^verbatim>\<open>request.json()\<close> and
  answers with \<^verbatim>\<open>JSON.stringify(data)\<close>. Both sides are JSON values. An object keeps
  its members in order; a parsed object with a repeated key answers with the last one.
  A \<open>string\<close> holds one UTF-16 code unit below 256 in each \<open>char\<close>; a text with a
  code unit of 256 or more is outside the model.
\<close>

datatype json =
    JNull
  | JBool bool
  | JNum real
  | JStr string
  | JArr "json list"
  | JObj "(string \<times> json) list"

text \<open>The exceptions that reach a \<^verbatim>\<open>catch\<close> of the handlers.\<close>

datatype exn = SyntaxError | TypeError | D1_ERROR

text \<open>
  \<^verbatim>\<open>error.message\<close> is the engine's text for the exception; the model keeps the name
  of the exception in its place.
\<close>

fun message :: "exn \<Rightarrow> string" where
  "message SyntaxError = ''SyntaxError''"
| "message TypeError = ''TypeError''"
| "message D1_ERROR = ''D1_ERROR''"

text \<open>Member lookup on an object value.\<close>

fun obj_get :: "json \<Rightarrow> string \<Rightarrow> json option" where
  "obj_get (JObj kvs) k = map_of (rev kvs) k"
| "obj_get _ k = None"

text \<open>
  \<^verbatim>\<open>data.content\<close>: reading a property of \<^verbatim>\<open>null\<close> throws a TypeError, on an object it
  gives the member or \<^verbatim>\<open>undefined\<close> (here \<open>None\<close>), and on a number, string, boolean
  or array the names \<^verbatim>\<open>content\<close> and \<^verbatim>\<open>user_id\<close> are \<^verbatim>\<open>undefined\<close>.
\<close>

fun get_prop :: "json \<Rightarrow> string \<Rightarrow> exn + json option" where
  "get_prop JNull k = Inl TypeError"
| "get_prop d k = Inr (obj_get d k)"

text \<open>JavaScript truthiness, as \<^verbatim>\<open>||\<close> and \<^verbatim>\<open>!\<close> use it.\<close>

fun truthy :: "json \<Rightarrow> bool" where
  "truthy JNull = False"
| "truthy (JBool b) = b"
| "truthy (JNum n) = (n \<noteq> 0)"
| "truthy (JStr s) = (s \<noteq> [])"
| "truthy (JArr xs) = True"
| "truthy (JObj kvs) = True"

text \<open>\<^verbatim>\<open>v || d\<close> where \<open>v\<close> may be \<^verbatim>\<open>undefined\<close>.\<close>

definition or_else :: "json option \<Rightarrow> json \<Rightarrow> json" where
  "or_else v d = (case v of None \<Rightarrow> d | Some x \<Rightarrow> if truthy x then x else d)"

section \<open>Strings\<close>

text \<open>
  \<^verbatim>\<open>String.prototype.toLowerCase\<close> on code units below 256: the letters A to Z and the
  Latin-1 capitals U+00C0 to U+00DE other than the multiplication sign U+00D7 move up
  by 32; every other code unit stays.
\<close>

definition toLowerChar :: "char \<Rightarrow> char" where
  "toLowerChar c =
     (let n = (of_char c :: nat)
      in if (65 \<le> n \<and> n \<le> 90) \<or> (192 \<le> n \<and> n \<le> 222 \<and> n \<noteq> 215)
         then char_of (n + 32) else c)"

definition toLowerCase :: "string \<Rightarrow> string" where
  "toLowerCase s = map toLowerChar s"

text \<open>\<^verbatim>\<open>s.includes(k)\<close>: \<open>k\<close> occurs in \<open>s\<close> as a run of consecutive code units.\<close>

fun includes_str :: "string \<Rightarrow> string \<Rightarrow> bool" where
  "includes_str [] k = (k = [])"
| "includes_str (c # cs) k = (prefix k (c # cs) \<or> includes_str cs k)"

text \<open>The decimal text of a non-negative integer, as a template literal prints it.\<close>

fun digits :: "nat \<Rightarrow> string" where
  "digits n =
     (if n < 10 then [char_of (48 + n)]
      else digits (n div 10) @ [char_of (48 + n mod 10)])"

declare digits.simps [simp del]

section \<open>hashString\<close>

text \<open>
  \<^verbatim>\<open>
  function hashString(str: string): number {
    let hash = 0;
    for (let i = 0; i < str.length; i++) {
      const char = str.charCodeAt(i);
      hash = (hash << 5) - hash + char;
      hash = hash & hash;
    }
    return Math.abs(hash);
  }
  \<close>
  \<^verbatim>\<open>hash << 5\<close> and \<^verbatim>\<open>hash & hash\<close> work on 32-bit two's complement integers, and
  the sum between them is exact in a double, so one round of the loop is 32-bit word
  arithmetic. \<^verbatim>\<open>Math.abs\<close> is taken on the number, outside the 32 bits: the
  hash \<open>- 2 ^ 31\<close> gives \<open>2 ^ 31\<close>.
\<close>

definition hash_round :: "32 word \<Rightarrow> char \<Rightarrow> 32 word" where
  "hash_round hash c =
     (let h = push_bit 5 hash - hash + of_nat (of_char c)
      in h AND h)"

fun hash_loop :: "32 word \<Rightarrow> string \<Rightarrow> 32 word" where
  "hash_loop hash [] = hash"
| "hash_loop hash (c # cs) = hash_loop (hash_round hash c) cs"

definition hashString :: "string \<Rightarrow> int" where
  "hashString str = \<bar>sint (hash_loop 0 str)\<bar>"

section \<open>The bindings of the worker: D1 and KV\<close>

text \<open>
  The tables of \<^verbatim>\<open>migrations/0001_init_schema.sql\<close> that the handlers touch. Of
  \<^verbatim>\<open>users\<close> only the primary keys matter here (the foreign keys of the other two
  tables point to them). \<^verbatim>\<open>created_at\<close> is \<^verbatim>\<open>CURRENT_TIMESTAMP\<close>, kept as the number
  of seconds it denotes and given out as the text that SQLite holds. Columns that no
  handler writes (\<^verbatim>\<open>bias_score\<close>, \<^verbatim>\<open>sentiment_score\<close>, \<^verbatim>\<open>details\<close>) are left out
  of \<open>analysis_row\<close>.
\<close>

record post_row =
  p_id :: int
  p_user_id :: int
  p_content :: string
  p_image_url :: "string option"
  p_source_url :: "string option"
  p_created_at :: nat

record analysis_row =
  a_id :: int
  a_post_id :: int
  a_user_id :: int
  a_credibility_score :: real
  a_is_misinformation :: "int option"
  a_confidence :: "real option"
  a_analysis_type :: "string option"
  a_created_at :: nat

text \<open>
  \<open>posts_seq\<close> and \<open>analysis_seq\<close> are the rows of \<^verbatim>\<open>sqlite_sequence\<close> that
  \<^verbatim>\<open>AUTOINCREMENT\<close> keeps: the largest key ever given out in the table.
  \<open>other_tables\<close> are the tables that no statement of the worker names, by name
  (\<^verbatim>\<open>user_reports\<close> and \<^verbatim>\<open>saved_posts\<close> of the migration, and whatever else the bound
  database holds), each a list of rows, a row giving its columns by name.
\<close>

record d1 =
  users :: "int list"
  posts :: "post_row list"
  posts_seq :: int
  analysis_results :: "analysis_row list"
  analysis_seq :: int
  other_tables :: "(string \<times> (string \<times> json) list list) list"


text \<open>The key an \<^verbatim>\<open>INTEGER PRIMARY KEY AUTOINCREMENT\<close> column gives the next row.\<close>

definition next_rowid :: "int \<Rightarrow> int list \<Rightarrow> int" where
  "next_rowid seq ids = 1 + foldr max ids (max seq 0)"

text \<open>The number that a text of decimal digits spells; \<open>None\<close> for any other text.\<close>

fun parse_digits :: "nat \<Rightarrow> string \<Rightarrow> nat option" where
  "parse_digits acc [] = Some acc"
| "parse_digits acc (c # cs) =
     (let n = (of_char c :: nat)
      in if 48 \<le> n \<and> n \<le> 57 then parse_digits (10 * acc + (n - 48)) cs else None)"

text \<open>
  A value bound to an \<^verbatim>\<open>INTEGER\<close> column that references \<^verbatim>\<open>users(id)\<close>. D1 checks
  foreign keys on every statement, so the insert fails unless the value is the key of a
  user. A whole number binds as itself, a boolean as 1 or 0, and a text of decimal
  digits as the number it spells (the column's affinity converts it). Other spellings
  that SQLite converts too (a sign, blanks around the digits, an exponent) count as
  failing here, so nothing is said below about a request whose \<^verbatim>\<open>user_id\<close> is one.
  An array or an object cannot be bound, and any other value is the key of no user.
\<close>

fun bind_integer :: "json \<Rightarrow> int option" where
  "bind_integer (JNum n) = (if n = of_int \<lfloor>n\<rfloor> then Some \<lfloor>n\<rfloor> else None)"
| "bind_integer (JBool b) = Some (if b then 1 else 0)"
| "bind_integer (JStr s) = (if s = [] then None else map_option int (parse_digits 0 s))"
| "bind_integer _ = None"

text \<open>
  \<^verbatim>\<open>INSERT INTO posts (user_id, content) VALUES (?, ?)\<close>, returning
  \<^verbatim>\<open>meta.last_row_id\<close> and the new database.
\<close>

definition insert_post :: "d1 \<Rightarrow> json \<Rightarrow> string \<Rightarrow> nat \<Rightarrow> exn + (int \<times> d1)" where
  "insert_post db userId content now =
     (case bind_integer userId of
        None \<Rightarrow> Inl D1_ERROR
      | Some uid \<Rightarrow>
          if uid \<in> set (users db) then
            (let rowid = next_rowid (posts_seq db) (map p_id (posts db));
                 row = \<lparr>p_id = rowid, p_user_id = uid, p_content = content,
                        p_image_url = None, p_source_url = None, p_created_at = now\<rparr>
             in Inr (rowid, db\<lparr>posts := posts db @ [row], posts_seq := rowid\<rparr>))
          else Inl D1_ERROR)"

text \<open>
  \<^verbatim>\<open>INSERT INTO analysis_results (post_id, user_id, credibility_score,
  is_misinformation, confidence, analysis_type) VALUES (?, ?, ?, ?, ?, ?)\<close>.
\<close>

definition insert_analysis ::
    "d1 \<Rightarrow> int \<Rightarrow> json \<Rightarrow> real \<Rightarrow> int \<Rightarrow> real \<Rightarrow> string \<Rightarrow> nat \<Rightarrow> exn + (int \<times> d1)" where
  "insert_analysis db postId userId score flag conf kind now =
     (case bind_integer userId of
        None \<Rightarrow> Inl D1_ERROR
      | Some uid \<Rightarrow>
          if uid \<in> set (users db) \<and> postId \<in> set (map p_id (posts db)) then
            (let rowid = next_rowid (analysis_seq db) (map a_id (analysis_results db));
                 row = \<lparr>a_id = rowid, a_post_id = postId, a_user_id = uid,
                        a_credibility_score = score, a_is_misinformation = Some flag,
                        a_confidence = Some conf, a_analysis_type = Some kind,
                        a_created_at = now\<rparr>
             in Inr (rowid, db\<lparr>analysis_results := analysis_results db @ [row],
                                analysis_seq := rowid\<rparr>))
          else Inl D1_ERROR)"

text \<open>
  A KV namespace: under each key the stored value and the time at which the entry
  expires. The worker stores \<^verbatim>\<open>JSON.stringify\<close> of an object; the model stores the
  object.
\<close>

type_synonym kv = "string \<rightharpoonup> (json \<times> nat)"

text \<open>\<^verbatim>\<open>CACHE.put(key, value, { expirationTtl: ttl })\<close> at time \<open>now\<close>.\<close>

definition kv_put :: "kv \<Rightarrow> string \<Rightarrow> json \<Rightarrow> nat \<Rightarrow> nat \<Rightarrow> kv" where
  "kv_put cache key v ttl now = cache(key \<mapsto> (v, now + ttl))"

record env =
  DB :: d1
  CACHE :: kv

section \<open>Requests and responses\<close>

text \<open>
  Of a request the handlers read the method and the parsed body; \<open>None\<close> is a body that
  \<^verbatim>\<open>request.json()\<close> rejects. The path, the query string and the headers are carried
  along as the caller sent them.
\<close>

record request =
  req_method :: string
  req_pathname :: string
  req_search :: string
  req_headers :: "(string \<times> string) list"
  req_body :: "json option"

record response =
  res_status :: nat
  res_body :: json

text \<open>
  \<^verbatim>\<open>jsonResponse(data, headers, status = 200)\<close>. The headers are the same CORS headers
  on every path and are not part of the model.
\<close>

definition jsonResponse :: "json \<Rightarrow> nat \<Rightarrow> response" where
  "jsonResponse data status = \<lparr>res_status = status, res_body = data\<rparr>"

section \<open>handleAnalysis\<close>

definition suspiciousKeywords :: "string list" where
  "suspiciousKeywords =
     [''click here'', ''act now'', ''limited time'', ''guaranteed'', ''free money'']"

definition foundSuspicious :: "string \<Rightarrow> bool" where
  "foundSuspicious content =
     list_ex (\<lambda>keyword. includes_str (toLowerCase content) keyword) suspiciousKeywords"

definition credibilityScore :: "string \<Rightarrow> real" where
  "credibilityScore content = (if foundSuspicious content then 0.35 else 0.75)"

definition isMisinformation :: "real \<Rightarrow> bool" where
  "isMisinformation score = (score < 0.5)"

definition recommendation :: "bool \<Rightarrow> string" where
  "recommendation mis =
     (if mis then ''Verify with additional sources'' else ''Content appears credible'')"

definition cacheKey :: "string \<Rightarrow> string" where
  "cacheKey content = ''analysis_'' @ digits (nat (hashString content))"

text \<open>\<^verbatim>\<open>const userId = data.user_id || 1\<close>.\<close>

definition userId_of :: "json \<Rightarrow> json" where
  "userId_of data = or_else (obj_get data ''user_id'') (JNum 1)"

definition analysis_failed :: "exn \<Rightarrow> response" where
  "analysis_failed e =
     jsonResponse (JObj [(''error'', JStr (''Analysis failed: '' @ message e))]) 500"

text \<open>
  The body of the \<^verbatim>\<open>try\<close> from the cache write on, for a content that is a non-empty
  string. The cache entry is written before the two inserts, and stays when one of them
  throws.
\<close>

definition analyse_and_store :: "nat \<Rightarrow> json \<Rightarrow> string \<Rightarrow> env \<Rightarrow> response \<times> env" where
  "analyse_and_store now data content env =
     (let score = credibilityScore content;
          mis = isMisinformation score;
          env1 = env\<lparr>CACHE := kv_put (CACHE env) (cacheKey content)
                    (JObj [(''credibility_score'', JNum score),
                           (''is_misinformation'', JBool mis)]) 3600 now\<rparr>;
          userId = userId_of data
      in case insert_post (DB env1) userId content now of
           Inl e \<Rightarrow> (analysis_failed e, env1)
         | Inr (postId, db1) \<Rightarrow>
             (case insert_analysis db1 postId userId score (if mis then 1 else 0)
                     0.85 ''basic'' now of
                Inl e \<Rightarrow> (analysis_failed e, env1\<lparr>DB := db1\<rparr>)
              | Inr (_, db2) \<Rightarrow>
                  (jsonResponse
                     (JObj [(''post_id'', JNum (of_int postId)),
                            (''credibility_score'', JNum score),
                            (''is_misinformation'', JBool mis),
                            (''confidence'', JNum 0.85),
                            (''recommendation'', JStr (recommendation mis))]) 200,
                   env1\<lparr>DB := db2\<rparr>)))"

text \<open>
  \<open>handleAnalysis now request env\<close> is the response and the bindings after the call;
  \<open>now\<close> is the time of the call in seconds.
\<close>

definition handleAnalysis :: "nat \<Rightarrow> request \<Rightarrow> env \<Rightarrow> response \<times> env" where
  "handleAnalysis now request env =
     (if req_method request = ''POST'' then
        (case req_body request of
           None \<Rightarrow> (analysis_failed SyntaxError, env)
         | Some data \<Rightarrow>
             (case get_prop data ''content'' of
                Inl e \<Rightarrow> (analysis_failed e, env)
              | Inr c \<Rightarrow>
                  (let content = or_else c (JStr [])
                   in if \<not> truthy content then
                        (jsonResponse (JObj [(''error'', JStr ''Content required'')]) 400, env)
                      else
                        (case content of
                           JStr s \<Rightarrow> analyse_and_store now data s env
                         | _ \<Rightarrow> (analysis_failed TypeError, env)))))
      else (jsonResponse (JObj [(''error'', JStr ''Method not allowed'')]) 405, env))"

section \<open>handlePosts\<close>

text \<open>
  \<^verbatim>\<open>
  SELECT p.*, a.credibility_score, a.is_misinformation
  FROM posts p LEFT JOIN analysis_results a ON p.id = a.post_id
  WHERE p.user_id = ? ORDER BY p.created_at DESC LIMIT 20
  \<close>
  A post without an analysis gives one row with the two joined columns \<^verbatim>\<open>NULL\<close>. SQL
  leaves the order of rows with equal \<^verbatim>\<open>created_at\<close> open; the model keeps them in
  table order.
\<close>

definition left_join :: "d1 \<Rightarrow> post_row \<Rightarrow> (post_row \<times> analysis_row option) list" where
  "left_join db p =
     (case filter (\<lambda>a. a_post_id a = p_id p) (analysis_results db) of
        [] \<Rightarrow> [(p, None)]
      | a # as \<Rightarrow> map (\<lambda>x. (p, Some x)) (a # as))"

definition select_posts :: "d1 \<Rightarrow> int \<Rightarrow> (post_row \<times> analysis_row option) list" where
  "select_posts db userId =
     take 20
       (sort_key (\<lambda>r. - int (p_created_at (fst r)))
          (concat (map (left_join db) (filter (\<lambda>p. p_user_id p = userId) (posts db)))))"

text \<open>
  The text of \<^verbatim>\<open>CURRENT_TIMESTAMP\<close>, \<^verbatim>\<open>YYYY-MM-DD HH:MM:SS\<close> in UTC, for a number of
  seconds since 1970: the day count is split into year, month and day of the Gregorian
  calendar, counting from March so that the leap day comes last.
\<close>

definition pad :: "nat \<Rightarrow> nat \<Rightarrow> string" where
  "pad width n = replicate (width - length (digits n)) CHR ''0'' @ digits n"

definition civil_from_days :: "nat \<Rightarrow> nat \<times> nat \<times> nat" where
  "civil_from_days days =
     (let z = days + 719468;
          era = z div 146097;
          doe = z mod 146097;
          yoe = (doe - doe div 1460 + doe div 36524 - doe div 146096) div 365;
          doy = doe - (365 * yoe + yoe div 4 - yoe div 100);
          mp = (5 * doy + 2) div 153;
          d = doy - (153 * mp + 2) div 5 + 1;
          m = (if mp < 10 then mp + 3 else mp - 9);
          y = yoe + era * 400 + (if m \<le> 2 then 1 else 0)
      in (y, m, d))"

definition datetime_text :: "nat \<Rightarrow> string" where
  "datetime_text t =
     (case civil_from_days (t div 86400) of (y, m, d) \<Rightarrow>
        pad 4 y @ ''-'' @ pad 2 m @ ''-'' @ pad 2 d @ '' '' @
        pad 2 (t mod 86400 div 3600) @ '':'' @ pad 2 (t mod 3600 div 60) @ '':'' @
        pad 2 (t mod 60))"

fun json_of_text :: "string option \<Rightarrow> json" where
  "json_of_text None = JNull"
| "json_of_text (Some s) = JStr s"

fun json_of_integer :: "int option \<Rightarrow> json" where
  "json_of_integer None = JNull"
| "json_of_integer (Some i) = JNum (of_int i)"

definition row_json :: "post_row \<times> analysis_row option \<Rightarrow> json" where
  "row_json r =
     (case r of (p, a) \<Rightarrow>
        JObj [(''id'', JNum (of_int (p_id p))),
              (''user_id'', JNum (of_int (p_user_id p))),
              (''content'', JStr (p_content p)),
              (''image_url'', json_of_text (p_image_url p)),
              (''source_url'', json_of_text (p_source_url p)),
              (''created_at'', JStr (datetime_text (p_created_at p))),
              (''credibility_score'',
                 (case a of None \<Rightarrow> JNull | Some x \<Rightarrow> JNum (a_credibility_score x))),
              (''is_misinformation'',
                 (case a of None \<Rightarrow> JNull | Some x \<Rightarrow> json_of_integer (a_is_misinformation x)))])"

definition handlePosts :: "request \<Rightarrow> env \<Rightarrow> response" where
  "handlePosts request env =
     (if req_method request = ''GET'' then
        (let userId = 1;
             results = select_posts (DB env) userId
         in jsonResponse
              (JObj [(''posts'', JArr (map row_json results)),
                     (''count'', JNum (of_nat (length results)))]) 200)
      else jsonResponse (JObj [(''error'', JStr ''Method not allowed'')]) 405)"

section \<open>Inputs used in the examples\<close>

text \<open>
  The bindings as the migration leaves them: the user \<^verbatim>\<open>admin\<close> with key 1, no post,
  no analysis, an empty cache.
\<close>

definition migrated_env :: env where
  "migrated_env =
     \<lparr>DB = \<lparr>users = [1], posts = [], posts_seq = 0, analysis_results = [], analysis_seq = 0,
             other_tables = [(''user_reports'', []), (''saved_posts'', [])]\<rparr>,
      CACHE = Map.empty\<rparr>"

text \<open>A \<^verbatim>\<open>POST /api/v1/analyze\<close> with the parsed body \<open>d\<close>.\<close>

definition analyze_post :: "json \<Rightarrow> request" where
  "analyze_post d =
     \<lparr>req_method = ''POST'', req_pathname = ''/api/v1/analyze'', req_search = [],
      req_headers = [], req_body = Some d\<rparr>"

definition clickbait :: json where
  "clickbait = JObj [(''content'', JStr ''CLICK HERE to win'')]"

definition greeting :: json where
  "greeting = JObj [(''content'', JStr ''hello'')]"

definition nature_study :: json where
  "nature_study =
     JObj [(''content'', JStr ''A peer-reviewed study published in Nature found...'')]"

text \<open>The bindings after the content \<^verbatim>\<open>hello\<close> was analysed once, at time 0.\<close>

definition after_greeting :: env where
  "after_greeting = snd (handleAnalysis 0 (analyze_post greeting) migrated_env)"

text \<open>
  A database with three posts, two of user 1 and one of user 2, and one analysis; and a
  \<^verbatim>\<open>GET /api/v1/posts\<close> as a caller may send it, with a query string and a token.
\<close>

definition two_user_env :: env where
  "two_user_env =
     \<lparr>DB = \<lparr>users = [1, 2],
             posts =
               [\<lparr>p_id = 1, p_user_id = 1, p_content = ''first'', p_image_url = None,
                 p_source_url = None, p_created_at = 10\<rparr>,
                \<lparr>p_id = 2, p_user_id = 2, p_content = ''second'', p_image_url = None,
                 p_source_url = None, p_created_at = 20\<rparr>,
                \<lparr>p_id = 3, p_user_id = 1, p_content = ''third'', p_image_url = None,
                 p_source_url = None, p_created_at = 30\<rparr>],
             posts_seq = 3,
             analysis_results =
               [\<lparr>a_id = 1, a_post_id = 1, a_user_id = 1, a_credibility_score = 0.75,
                 a_is_misinformation = Some 0, a_confidence = Some 0.85,
                 a_analysis_type = Some ''basic'', a_created_at = 10\<rparr>],
             analysis_seq = 1,
             other_tables = [(''user_reports'', []), (''saved_posts'', [])]\<rparr>,
      CACHE = Map.empty\<rparr>"


definition posts_get :: "string \<Rightarrow> string \<Rightarrow> request" where
  "posts_get search token =
     \<lparr>req_method = ''GET'', req_pathname = ''/api/v1/posts'', req_search = search,
      req_headers = [(''Authorization'', token)], req_body = None\<rparr>"

section \<open>The notions of the specification, in its own words\<close>

text \<open>
  The lowercased content contains one of the five fixed substrings. \<open>sublist\<close> is the
  library's notion: \<open>sublist k s\<close> holds when \<open>s = ps @ k @ ss\<close> for some \<open>ps\<close>, \<open>ss\<close>.
\<close>

definition has_suspicious_keyword :: "string \<Rightarrow> bool" where
  "has_suspicious_keyword s =
     (\<exists>k \<in> set [''click here'', ''act now'', ''limited time'', ''guaranteed'', ''free money''].
        sublist k (toLowerCase s))"

text \<open>
  The scorer of the specification (section 4.2, steps 1, 2 and 4), given which of its
  five signals fire: base 50, the deltas \<open>-40\<close>, \<open>+30\<close>, \<open>+15\<close>, \<open>+10\<close>, \<open>-15\<close>,
  clamped to 0..100.
\<close>

definition spec_score :: "bool \<Rightarrow> bool \<Rightarrow> bool \<Rightarrow> bool \<Rightarrow> bool \<Rightarrow> int" where
  "spec_score suspicious credible neutral complex emotional =
     max 0 (min 100
       (50 + (if suspicious then - 40 else 0) + (if credible then 30 else 0) +
        (if neutral then 15 else 0) + (if complex then 10 else 0) +
        (if emotional then - 15 else 0)))"

text \<open>
  The verdict bands of the specification for a score that the heuristics computed:
  70 and above, 50 and above, and everything below (a score under 30 reports as
  \<^verbatim>\<open>LIKELY_FAKE\<close> too).
\<close>

definition spec_verdict :: "real \<Rightarrow> string" where
  "spec_verdict score =
     (if score \<ge> 70 then ''VERIFIED''
      else if score \<ge> 50 then ''UNCLEAR''
      else ''LIKELY_FAKE'')"

text \<open>The score range of the specification: a whole number from 0 to 100.\<close>

definition spec_integer_score :: "json option \<Rightarrow> bool" where
  "spec_integer_score v =
     (case v of Some (JNum x) \<Rightarrow> x = of_int \<lfloor>x\<rfloor> \<and> 0 \<le> x \<and> x \<le> 100 | _ \<Rightarrow> False)"


section \<open>Facts about the model\<close>

subsection \<open>Strings and the hash\<close>

lemma includes_str_sublist: "includes_str s k = sublist k s"
  by (induction s) (auto simp: sublist_Cons_right)

lemma foundSuspicious_keyword: "foundSuspicious s = has_suspicious_keyword s"
  by (simp add: foundSuspicious_def suspiciousKeywords_def includes_str_sublist
        has_suspicious_keyword_def)

lemma isMisinformation_score: "isMisinformation (credibilityScore s) = foundSuspicious s"
  by (simp add: isMisinformation_def credibilityScore_def)

lemma hash_round_eq: "hash_round h c = 31 * h + of_nat (of_char c)"
  by (simp add: hash_round_def push_bit_eq_mult)

lemma hash_loop_foldl:
  "hash_loop h s = foldl (\<lambda>h c. 31 * h + of_nat (of_char c)) h s"
  by (induction s arbitrary: h) (simp_all add: hash_round_eq)

lemma hash_loop_append: "hash_loop h (a @ b) = hash_loop (hash_loop h a) b"
  by (induction a arbitrary: h) simp_all

lemma hashString_range: "0 \<le> hashString s \<and> hashString s \<le> 2 ^ 31"
proof -
  have "- (2 ^ 31) \<le> sint (hash_loop 0 s)" "sint (hash_loop 0 s) < 2 ^ 31"
    using sint_ge [of "hash_loop 0 s"] sint_lt [of "hash_loop 0 s"] by simp_all
  then show ?thesis by (simp add: hashString_def)
qed

subsection \<open>Row keys\<close>

lemma next_rowid_fresh: "i \<in> set ids \<Longrightarrow> i < next_rowid seq ids"
  by (induction ids) (auto simp: next_rowid_def)

lemma next_rowid_seq: "seq < next_rowid seq ids"
  by (induction ids) (auto simp: next_rowid_def)

lemma foldr_max_bounded: "\<forall>i \<in> set ids. i \<le> m \<Longrightarrow> foldr max ids (m :: int) = m"
  by (induction ids) auto

lemma next_rowid_next:
  "next_rowid (next_rowid seq ids) (ids @ [next_rowid seq ids]) = next_rowid seq ids + 1"
proof -
  let ?n = "next_rowid seq ids"
  have "\<forall>i \<in> set ids. i \<le> ?n"
    using next_rowid_fresh [of _ ids seq] by (auto intro: less_imp_le)
  moreover have "0 \<le> ?n"
    using next_rowid_seq [of "max seq 0" ids] by (simp add: next_rowid_def)
  ultimately show ?thesis
    by (simp add: next_rowid_def [of ?n] foldr_max_bounded)
qed

subsection \<open>The paths of handleAnalysis\<close>

text \<open>What a stored analysis answers and what it leaves in the bindings.\<close>

lemma analyse_and_store_ok:
  assumes "bind_integer (userId_of data) = Some uid" and "uid \<in> set (users (DB env))"
  shows "fst (analyse_and_store now data s env) =
           jsonResponse
             (JObj [(''post_id'',
                       JNum (of_int (next_rowid (posts_seq (DB env)) (map p_id (posts (DB env)))))),
                    (''credibility_score'', JNum (credibilityScore s)),
                    (''is_misinformation'', JBool (foundSuspicious s)),
                    (''confidence'', JNum 0.85),
                    (''recommendation'', JStr (recommendation (foundSuspicious s)))]) 200"
    and "posts (DB (snd (analyse_and_store now data s env))) =
           posts (DB env) @
             [\<lparr>p_id = next_rowid (posts_seq (DB env)) (map p_id (posts (DB env))),
               p_user_id = uid, p_content = s, p_image_url = None, p_source_url = None,
               p_created_at = now\<rparr>]"
    and "analysis_results (DB (snd (analyse_and_store now data s env))) =
           analysis_results (DB env) @
             [\<lparr>a_id = next_rowid (analysis_seq (DB env)) (map a_id (analysis_results (DB env))),
               a_post_id = next_rowid (posts_seq (DB env)) (map p_id (posts (DB env))),
               a_user_id = uid, a_credibility_score = credibilityScore s,
               a_is_misinformation = Some (if foundSuspicious s then 1 else 0),
               a_confidence = Some 0.85, a_analysis_type = Some ''basic'', a_created_at = now\<rparr>]"
    and "users (DB (snd (analyse_and_store now data s env))) = users (DB env)"
    and "posts_seq (DB (snd (analyse_and_store now data s env))) =
           next_rowid (posts_seq (DB env)) (map p_id (posts (DB env)))"
    and "CACHE (snd (analyse_and_store now data s env)) =
           (CACHE env)(cacheKey s \<mapsto>
              (JObj [(''credibility_score'', JNum (credibilityScore s)),
                     (''is_misinformation'', JBool (foundSuspicious s))], now + 3600))"
    and "other_tables (DB (snd (analyse_and_store now data s env))) = other_tables (DB env)"
  using assms
  by (simp_all add: analyse_and_store_def Let_def insert_post_def insert_analysis_def
        isMisinformation_score kv_put_def)

lemma analyse_and_store_fails:
  assumes "\<not> (\<exists>uid. bind_integer (userId_of data) = Some uid \<and> uid \<in> set (users (DB env)))"
  shows "analyse_and_store now data s env =
           (analysis_failed D1_ERROR,
            env\<lparr>CACHE := kv_put (CACHE env) (cacheKey s)
                   (JObj [(''credibility_score'', JNum (credibilityScore s)),
                          (''is_misinformation'', JBool (isMisinformation (credibilityScore s)))])
                   3600 now\<rparr>)"
  using assms
  by (auto simp add: analyse_and_store_def Let_def insert_post_def split: option.splits)

lemma handleAnalysis_string:
  assumes "req_method request = ''POST''" and "req_body request = Some data"
    and "get_prop data ''content'' = Inr (Some (JStr s))" and "s \<noteq> []"
  shows "handleAnalysis now request env = analyse_and_store now data s env"
  using assms by (simp add: handleAnalysis_def or_else_def)

lemma handleAnalysis_ok:
  assumes "req_method request = ''POST''" and "req_body request = Some data"
    and "get_prop data ''content'' = Inr (Some (JStr s))" and "s \<noteq> []"
    and "bind_integer (userId_of data) = Some uid" and "uid \<in> set (users (DB env))"
  shows "fst (handleAnalysis now request env) =
           jsonResponse
             (JObj [(''post_id'',
                       JNum (of_int (next_rowid (posts_seq (DB env)) (map p_id (posts (DB env)))))),
                    (''credibility_score'', JNum (credibilityScore s)),
                    (''is_misinformation'', JBool (foundSuspicious s)),
                    (''confidence'', JNum 0.85),
                    (''recommendation'', JStr (recommendation (foundSuspicious s)))]) 200"
  using assms by (simp add: handleAnalysis_string analyse_and_store_ok)

lemma handleAnalysis_stores:
  assumes "req_method request = ''POST''" and "req_body request = Some data"
    and "get_prop data ''content'' = Inr (Some (JStr s))" and "s \<noteq> []"
    and "bind_integer (userId_of data) = Some uid" and "uid \<in> set (users (DB env))"
  shows "posts (DB (snd (handleAnalysis now request env))) =
           posts (DB env) @
             [\<lparr>p_id = next_rowid (posts_seq (DB env)) (map p_id (posts (DB env))),
               p_user_id = uid, p_content = s, p_image_url = None, p_source_url = None,
               p_created_at = now\<rparr>]"
    and "analysis_results (DB (snd (handleAnalysis now request env))) =
           analysis_results (DB env) @
             [\<lparr>a_id = next_rowid (analysis_seq (DB env)) (map a_id (analysis_results (DB env))),
               a_post_id = next_rowid (posts_seq (DB env)) (map p_id (posts (DB env))),
               a_user_id = uid, a_credibility_score = credibilityScore s,
               a_is_misinformation = Some (if foundSuspicious s then 1 else 0),
               a_confidence = Some 0.85, a_analysis_type = Some ''basic'', a_created_at = now\<rparr>]"
    and "users (DB (snd (handleAnalysis now request env))) = users (DB env)"
    and "posts_seq (DB (snd (handleAnalysis now request env))) =
           next_rowid (posts_seq (DB env)) (map p_id (posts (DB env)))"
    and "CACHE (snd (handleAnalysis now request env)) =
           (CACHE env)(cacheKey s \<mapsto>
              (JObj [(''credibility_score'', JNum (credibilityScore s)),
                     (''is_misinformation'', JBool (foundSuspicious s))], now + 3600))"
  using assms by (simp_all add: handleAnalysis_string analyse_and_store_ok)

text \<open>
  Every path of the handler either answers with an error object and a status other than
  200, or is a stored analysis of a non-empty string for a known user.
\<close>

lemma handleAnalysis_cases:
  "(res_status (fst (handleAnalysis now request env)) \<noteq> 200 \<and>
    (\<exists>m. res_body (fst (handleAnalysis now request env)) = JObj [(''error'', JStr m)])) \<or>
   (\<exists>data s uid. req_method request = ''POST'' \<and> req_body request = Some data \<and>
        get_prop data ''content'' = Inr (Some (JStr s)) \<and> s \<noteq> [] \<and>
        bind_integer (userId_of data) = Some uid \<and> uid \<in> set (users (DB env)) \<and>
        handleAnalysis now request env = analyse_and_store now data s env)"
proof (cases "req_method request = ''POST''")
  case False
  then show ?thesis by (simp add: handleAnalysis_def jsonResponse_def)
next
  case post: True
  show ?thesis
  proof (cases "req_body request")
    case None
    with post show ?thesis
      by (simp add: handleAnalysis_def analysis_failed_def jsonResponse_def)
  next
    case (Some data)
    show ?thesis
    proof (cases "get_prop data ''content''")
      case (Inl e)
      with post Some show ?thesis
        by (simp add: handleAnalysis_def analysis_failed_def jsonResponse_def)
    next
      case (Inr c)
      show ?thesis
      proof (cases "truthy (or_else c (JStr []))")
        case False
        with post Some Inr show ?thesis
          by (simp add: handleAnalysis_def jsonResponse_def)
      next
        case tr: True
        show ?thesis
        proof (cases "or_else c (JStr [])")
          case (JStr s)
          with tr have ne: "s \<noteq> []" by simp
          from JStr ne have c: "c = Some (JStr s)"
            by (auto simp: or_else_def split: option.splits if_splits)
          have eq: "handleAnalysis now request env = analyse_and_store now data s env"
            using post Some Inr c ne by (simp add: handleAnalysis_string)
          show ?thesis
          proof (cases "\<exists>uid. bind_integer (userId_of data) = Some uid
                           \<and> uid \<in> set (users (DB env))")
            case True
            with post Some Inr c ne eq show ?thesis by auto
          next
            case False
            then show ?thesis
              using eq by (simp add: analyse_and_store_fails analysis_failed_def jsonResponse_def)
          qed
        qed (use post Some Inr tr in
              \<open>simp_all add: handleAnalysis_def analysis_failed_def jsonResponse_def\<close>)
      qed
    qed
  qed
qed

lemma handleAnalysis_200:
  assumes "res_status (fst (handleAnalysis now request env)) = 200"
  shows "\<exists>s. res_body (fst (handleAnalysis now request env)) =
           JObj [(''post_id'',
                    JNum (of_int (next_rowid (posts_seq (DB env)) (map p_id (posts (DB env)))))),
                 (''credibility_score'', JNum (credibilityScore s)),
                 (''is_misinformation'', JBool (foundSuspicious s)),
                 (''confidence'', JNum 0.85),
                 (''recommendation'', JStr (recommendation (foundSuspicious s)))] \<and>
           (\<exists>data. req_body request = Some data \<and>
                   get_prop data ''content'' = Inr (Some (JStr s)))"
  using handleAnalysis_cases [of now request env] assms
  by (auto simp add: analyse_and_store_ok jsonResponse_def)

text \<open>The response object has the member \<^verbatim>\<open>error\<close> or the five members of an analysis.\<close>

lemma handleAnalysis_no_member:
  assumes "k \<notin> {''error'', ''post_id'', ''credibility_score'', ''is_misinformation'',
                ''confidence'', ''recommendation''}"
  shows "obj_get (res_body (fst (handleAnalysis now request env))) k = None"
  using handleAnalysis_cases [of now request env] assms
  by (auto simp add: analyse_and_store_ok jsonResponse_def)






subsection \<open>The example requests\<close>

lemma migrated_admin: "1 \<in> set (users (DB migrated_env))"
  by (simp add: migrated_env_def)

lemma greeting_facts:
  "req_method (analyze_post greeting) = ''POST''"
  "req_body (analyze_post greeting) = Some greeting"
  "get_prop greeting ''content'' = Inr (Some (JStr ''hello''))"
  "''hello'' \<noteq> []"
  "bind_integer (userId_of greeting) = Some 1"
  by (simp_all add: analyze_post_def greeting_def userId_of_def or_else_def)

lemma nature_facts:
  "req_method (analyze_post nature_study) = ''POST''"
  "req_body (analyze_post nature_study) = Some nature_study"
  "get_prop nature_study ''content'' =
     Inr (Some (JStr ''A peer-reviewed study published in Nature found...''))"
  "''A peer-reviewed study published in Nature found...'' \<noteq> []"
  "bind_integer (userId_of nature_study) = Some 1"
  by (simp_all add: analyze_post_def nature_study_def userId_of_def or_else_def)

lemma clickbait_facts:
  "req_method (analyze_post clickbait) = ''POST''"
  "req_body (analyze_post clickbait) = Some clickbait"
  "get_prop clickbait ''content'' = Inr (Some (JStr ''CLICK HERE to win''))"
  "''CLICK HERE to win'' \<noteq> []"
  "bind_integer (userId_of clickbait) = Some 1"
  by (simp_all add: analyze_post_def clickbait_def userId_of_def or_else_def)

lemma greeting_plain: "\<not> foundSuspicious ''hello''"
  by code_simp

lemma nature_plain:
  "\<not> foundSuspicious ''A peer-reviewed study published in Nature found...''"
  by code_simp

lemma clickbait_found: "foundSuspicious ''CLICK HERE to win''"
  by code_simp

lemma greeting_response:
  "fst (handleAnalysis 0 (analyze_post greeting) migrated_env) =
     \<lparr>res_status = 200,
      res_body = JObj [(''post_id'', JNum 1), (''credibility_score'', JNum 0.75),
                       (''is_misinformation'', JBool False), (''confidence'', JNum 0.85),
                       (''recommendation'', JStr ''Content appears credible'')]\<rparr>"
  unfolding handleAnalysis_ok [OF greeting_facts migrated_admin]
  by (simp add: greeting_plain credibilityScore_def recommendation_def jsonResponse_def
        migrated_env_def next_rowid_def)

lemma clickbait_response:
  "fst (handleAnalysis 0 (analyze_post clickbait) migrated_env) =
     \<lparr>res_status = 200,
      res_body = JObj [(''post_id'', JNum 1), (''credibility_score'', JNum 0.35),
                       (''is_misinformation'', JBool True), (''confidence'', JNum 0.85),
                       (''recommendation'', JStr ''Verify with additional sources'')]\<rparr>"
  unfolding handleAnalysis_ok [OF clickbait_facts migrated_admin]
  by (simp add: clickbait_found credibilityScore_def recommendation_def jsonResponse_def
        migrated_env_def next_rowid_def)

lemma nature_response:
  "fst (handleAnalysis 0 (analyze_post nature_study) migrated_env) =
     \<lparr>res_status = 200,
      res_body = JObj [(''post_id'', JNum 1), (''credibility_score'', JNum 0.75),
                       (''is_misinformation'', JBool False), (''confidence'', JNum 0.85),
                       (''recommendation'', JStr ''Content appears credible'')]\<rparr>"
  unfolding handleAnalysis_ok [OF nature_facts migrated_admin]
  by (simp add: nature_plain credibilityScore_def recommendation_def jsonResponse_def
        migrated_env_def next_rowid_def)

lemma after_greeting_admin: "1 \<in> set (users (DB after_greeting))"
  unfolding after_greeting_def handleAnalysis_stores(3) [OF greeting_facts migrated_admin]
  by (rule migrated_admin)

lemma after_greeting_posts:
  "posts (DB after_greeting) =
     [\<lparr>p_id = 1, p_user_id = 1, p_content = ''hello'', p_image_url = None,
       p_source_url = None, p_created_at = 0\<rparr>]"
  "posts_seq (DB after_greeting) = 1"
  unfolding after_greeting_def handleAnalysis_stores [OF greeting_facts migrated_admin]
  by (simp_all add: migrated_env_def next_rowid_def)

lemma after_greeting_cache:
  "CACHE after_greeting (cacheKey ''hello'') =
     Some (JObj [(''credibility_score'', JNum 0.75), (''is_misinformation'', JBool False)], 3600)"
  unfolding after_greeting_def handleAnalysis_stores [OF greeting_facts migrated_admin]
  by (simp add: credibilityScore_def greeting_plain)

lemma second_greeting_response:
  "fst (handleAnalysis 10 (analyze_post greeting) after_greeting) =
     \<lparr>res_status = 200,
      res_body = JObj [(''post_id'', JNum 2), (''credibility_score'', JNum 0.75),
                       (''is_misinformation'', JBool False), (''confidence'', JNum 0.85),
                       (''recommendation'', JStr ''Content appears credible'')]\<rparr>"
  unfolding handleAnalysis_ok [OF greeting_facts after_greeting_admin]
  by (simp add: greeting_plain credibilityScore_def recommendation_def jsonResponse_def
        after_greeting_posts next_rowid_def)





subsection \<open>The posts query\<close>

lemma left_join_fst: "r \<in> set (left_join db p) \<Longrightarrow> fst r = p"
  by (auto simp: left_join_def split: list.splits)

lemma select_posts_rows:
  "r \<in> set (select_posts db u) \<Longrightarrow> fst r \<in> set (posts db) \<and> p_user_id (fst r) = u"
  by (auto simp: select_posts_def dest!: in_set_takeD left_join_fst)

lemma select_posts_limit: "length (select_posts db u) \<le> 20"
  by (simp add: select_posts_def)

lemma select_posts_ordered:
  "sorted_wrt (\<lambda>x y. p_created_at (fst x) \<ge> p_created_at (fst y)) (select_posts db u)"
proof -
  let ?xs = "concat (map (left_join db) (filter (\<lambda>p. p_user_id p = u) (posts db)))"
  have "sorted (map (\<lambda>r. - int (p_created_at (fst r)))
                  (sort_key (\<lambda>r. - int (p_created_at (fst r))) ?xs))"
    by (rule sorted_sort_key)
  then have "sorted_wrt (\<lambda>x y. p_created_at (fst x) \<ge> p_created_at (fst y))
               (sort_key (\<lambda>r. - int (p_created_at (fst r))) ?xs)"
    by (simp add: sorted_wrt_map)
  then show ?thesis
    unfolding select_posts_def by (rule sorted_wrt_take)
qed

section \<open>The claims\<close>

subsection \<open>C1: how the score is computed\<close>

text \<open>
  Claim C1, as stated, fails. The content \<^verbatim>\<open>A peer-reviewed study published in Nature
  found...\<close> is the specification's example of the credible, neutral-sentiment and
  complexity signals firing with no negative signal, for 50 + 30 + 15 + 10 clamped to
  100. The worker answers it with the score 0.75.
\<close>

theorem spec_score_counterexample:
  "obj_get (res_body (fst (handleAnalysis 0 (analyze_post nature_study) migrated_env)))
     ''credibility_score'' = Some (JNum 0.75) \<and>
   obj_get (res_body (fst (handleAnalysis 0 (analyze_post nature_study) migrated_env)))
     ''credibility_score'' \<noteq> Some (JNum (of_int (spec_score False True True True False)))"
  by (simp add: nature_response spec_score_def)

text \<open>
  Claim C1, amended. For every non-empty content string (sent by \<^verbatim>\<open>POST\<close> for a user
  the database knows) the score starts from the base 0.75 and one signal only is
  applied: a suspicious keyword in the lowercased content takes 0.40 off. No other
  signal and no clamping enter the score.
\<close>

theorem score_base_and_keyword_delta:
  assumes "req_method request = ''POST''" and "req_body request = Some data"
    and "get_prop data ''content'' = Inr (Some (JStr s))" and "s \<noteq> []"
    and "bind_integer (userId_of data) = Some uid" and "uid \<in> set (users (DB env))"
  shows "obj_get (res_body (fst (handleAnalysis now request env))) ''credibility_score'' =
           Some (JNum (0.75 - (if has_suspicious_keyword s then 0.40 else 0)))"
  by (simp add: handleAnalysis_ok [OF assms] jsonResponse_def credibilityScore_def
        foundSuspicious_keyword)

theorem score_base_and_keyword_delta_witness:
  "req_method (analyze_post nature_study) = ''POST'' \<and>
   req_body (analyze_post nature_study) = Some nature_study \<and>
   get_prop nature_study ''content'' =
     Inr (Some (JStr ''A peer-reviewed study published in Nature found...'')) \<and>
   bind_integer (userId_of nature_study) = Some 1 \<and> 1 \<in> set (users (DB migrated_env)) \<and>
   obj_get (res_body (fst (handleAnalysis 0 (analyze_post nature_study) migrated_env)))
     ''credibility_score'' = Some (JNum 0.75)"
proof -
  have "\<not> has_suspicious_keyword ''A peer-reviewed study published in Nature found...''"
    using nature_plain by (simp add: foundSuspicious_keyword)
  with score_base_and_keyword_delta [OF nature_facts migrated_admin, of 0]
    nature_facts migrated_admin
  show ?thesis by simp
qed

subsection \<open>C2: from the score to the verdict\<close>

text \<open>
  Claim C2, as stated, fails. The content \<^verbatim>\<open>hello\<close> gets the score 0.75, and the
  response carries no verdict: neither the band of 0.75 nor, reading the score as a
  percentage, the band of 75.
\<close>

theorem verdict_bands_counterexample:
  "obj_get (res_body (fst (handleAnalysis 0 (analyze_post greeting) migrated_env)))
     ''credibility_score'' = Some (JNum 0.75) \<and>
   obj_get (res_body (fst (handleAnalysis 0 (analyze_post greeting) migrated_env)))
     ''verdict'' \<noteq> Some (JStr (spec_verdict 0.75)) \<and>
   obj_get (res_body (fst (handleAnalysis 0 (analyze_post greeting) migrated_env)))
     ''verdict'' \<noteq> Some (JStr (spec_verdict 75))"
  by (simp add: greeting_response)

text \<open>
  Claim C2, amended. No response of the analyze operation has a verdict, so none is
  \<^verbatim>\<open>CONFIRMED_FAKE\<close>. The classification of a scored request is a function of the
  score with one threshold: \<^verbatim>\<open>is_misinformation\<close> is true exactly when the score is
  below 0.5, and the recommendation is \<^verbatim>\<open>Verify with additional sources\<close> then and
  \<^verbatim>\<open>Content appears credible\<close> otherwise.
\<close>

theorem classification_by_threshold:
  "obj_get (res_body (fst (handleAnalysis now request env))) ''verdict'' = None \<and>
   (res_status (fst (handleAnalysis now request env)) = 200 \<longrightarrow>
      (\<exists>x. obj_get (res_body (fst (handleAnalysis now request env))) ''credibility_score'' =
              Some (JNum x) \<and>
            obj_get (res_body (fst (handleAnalysis now request env))) ''is_misinformation'' =
              Some (JBool (x < 0.5)) \<and>
            obj_get (res_body (fst (handleAnalysis now request env))) ''recommendation'' =
              Some (JStr (if x < 0.5 then ''Verify with additional sources''
                          else ''Content appears credible''))))"
proof (intro conjI impI)
  show "obj_get (res_body (fst (handleAnalysis now request env))) ''verdict'' = None"
    by (rule handleAnalysis_no_member) simp
next
  assume "res_status (fst (handleAnalysis now request env)) = 200"
  from handleAnalysis_200 [OF this] obtain s where
    "res_body (fst (handleAnalysis now request env)) =
       JObj [(''post_id'',
                JNum (of_int (next_rowid (posts_seq (DB env)) (map p_id (posts (DB env)))))),
             (''credibility_score'', JNum (credibilityScore s)),
             (''is_misinformation'', JBool (foundSuspicious s)),
             (''confidence'', JNum 0.85),
             (''recommendation'', JStr (recommendation (foundSuspicious s)))]"
    by blast
  then show "\<exists>x. obj_get (res_body (fst (handleAnalysis now request env))) ''credibility_score'' =
              Some (JNum x) \<and>
            obj_get (res_body (fst (handleAnalysis now request env))) ''is_misinformation'' =
              Some (JBool (x < 0.5)) \<and>
            obj_get (res_body (fst (handleAnalysis now request env))) ''recommendation'' =
              Some (JStr (if x < 0.5 then ''Verify with additional sources''
                          else ''Content appears credible''))"
    by (simp add: credibilityScore_def recommendation_def)
qed

theorem classification_by_threshold_witness:
  "res_status (fst (handleAnalysis 0 (analyze_post clickbait) migrated_env)) = 200 \<and>
   obj_get (res_body (fst (handleAnalysis 0 (analyze_post clickbait) migrated_env)))
     ''verdict'' = None \<and>
   obj_get (res_body (fst (handleAnalysis 0 (analyze_post clickbait) migrated_env)))
     ''credibility_score'' = Some (JNum 0.35) \<and>
   obj_get (res_body (fst (handleAnalysis 0 (analyze_post clickbait) migrated_env)))
     ''is_misinformation'' = Some (JBool True) \<and>
   obj_get (res_body (fst (handleAnalysis 0 (analyze_post clickbait) migrated_env)))
     ''recommendation'' = Some (JStr ''Verify with additional sources'')"
  using classification_by_threshold [of 0 "analyze_post clickbait" migrated_env]
  by (simp add: clickbait_response)

subsection \<open>C3: known fakes\<close>




subsection \<open>C4: the same content twice\<close>

text \<open>
  Claim C4, as stated, fails. After \<^verbatim>\<open>hello\<close> was analysed at time 0 the cache holds
  its entry until time 3600. The same request at time 10 is answered without
  \<^verbatim>\<open>cached = true\<close>, and it is stored as a second post.
\<close>

theorem cached_flag_counterexample:
  "CACHE after_greeting (cacheKey ''hello'') =
     Some (JObj [(''credibility_score'', JNum 0.75), (''is_misinformation'', JBool False)],
           3600) \<and>
   obj_get (res_body (fst (handleAnalysis 10 (analyze_post greeting) after_greeting)))
     ''cached'' \<noteq> Some (JBool True) \<and>
   obj_get (res_body (fst (handleAnalysis 10 (analyze_post greeting) after_greeting)))
     ''post_id'' = Some (JNum 2)"
  by (simp add: after_greeting_cache second_greeting_response)

text \<open>
  Claim C4, amended. Submitting the same content twice, at any two times \<open>t1\<close> and \<open>t2\<close>
  (within the hour or after it), gives two responses with the same score, flag,
  confidence and recommendation. Both are computed afresh: neither has a \<^verbatim>\<open>cached\<close>
  member, the second one has another \<^verbatim>\<open>post_id\<close>, and each call writes the cache entry
  of the content anew, to expire 3600 seconds after that call.
\<close>

theorem repeated_content_is_recomputed:
  assumes "req_method request = ''POST''" and "req_body request = Some data"
    and "get_prop data ''content'' = Inr (Some (JStr s))" and "s \<noteq> []"
    and "bind_integer (userId_of data) = Some uid" and "uid \<in> set (users (DB env))"
  shows "res_status (fst (handleAnalysis t1 request env)) = 200 \<and>
         res_status (fst (handleAnalysis t2 request (snd (handleAnalysis t1 request env)))) = 200 \<and>
         (\<forall>k \<in> set [''credibility_score'', ''is_misinformation'', ''confidence'',
                     ''recommendation''].
            obj_get (res_body (fst (handleAnalysis t2 request
                                      (snd (handleAnalysis t1 request env))))) k =
            obj_get (res_body (fst (handleAnalysis t1 request env))) k \<and>
            obj_get (res_body (fst (handleAnalysis t1 request env))) k \<noteq> None) \<and>
         obj_get (res_body (fst (handleAnalysis t1 request env))) ''cached'' = None \<and>
         obj_get (res_body (fst (handleAnalysis t2 request (snd (handleAnalysis t1 request env)))))
           ''cached'' = None \<and>
         obj_get (res_body (fst (handleAnalysis t2 request (snd (handleAnalysis t1 request env)))))
           ''post_id'' \<noteq> obj_get (res_body (fst (handleAnalysis t1 request env))) ''post_id'' \<and>
         CACHE (snd (handleAnalysis t1 request env)) (cacheKey s) =
           Some (JObj [(''credibility_score'', JNum (credibilityScore s)),
                       (''is_misinformation'', JBool (isMisinformation (credibilityScore s)))],
                 t1 + 3600) \<and>
         CACHE (snd (handleAnalysis t2 request (snd (handleAnalysis t1 request env)))) (cacheKey s) =
           Some (JObj [(''credibility_score'', JNum (credibilityScore s)),
                       (''is_misinformation'', JBool (isMisinformation (credibilityScore s)))],
                 t2 + 3600)"
proof -
  note first = handleAnalysis_ok [OF assms, of t1] handleAnalysis_stores [OF assms, of t1]
  have uid': "uid \<in> set (users (DB (snd (handleAnalysis t1 request env))))"
    using assms(6) by (simp add: first)
  note second = handleAnalysis_ok [OF assms(1-5) uid', of t2]
    handleAnalysis_stores [OF assms(1-5) uid', of t2]
  have ids: "next_rowid (posts_seq (DB (snd (handleAnalysis t1 request env))))
               (map p_id (posts (DB (snd (handleAnalysis t1 request env))))) =
             next_rowid (posts_seq (DB env)) (map p_id (posts (DB env))) + 1"
    by (simp add: first next_rowid_next)
  show ?thesis
    unfolding second(1) second(6) ids
    unfolding first(1) first(6)
    by (simp add: jsonResponse_def isMisinformation_score)
qed

theorem repeated_content_is_recomputed_witness:
  "req_method (analyze_post greeting) = ''POST'' \<and>
   req_body (analyze_post greeting) = Some greeting \<and>
   get_prop greeting ''content'' = Inr (Some (JStr ''hello'')) \<and>
   bind_integer (userId_of greeting) = Some 1 \<and> 1 \<in> set (users (DB migrated_env)) \<and>
   res_status (fst (handleAnalysis 10 (analyze_post greeting)
     (snd (handleAnalysis 0 (analyze_post greeting) migrated_env)))) = 200 \<and>
   obj_get (res_body (fst (handleAnalysis 10 (analyze_post greeting)
     (snd (handleAnalysis 0 (analyze_post greeting) migrated_env))))) ''cached'' = None \<and>
   obj_get (res_body (fst (handleAnalysis 10 (analyze_post greeting)
     (snd (handleAnalysis 0 (analyze_post greeting) migrated_env))))) ''credibility_score'' =
   obj_get (res_body (fst (handleAnalysis 0 (analyze_post greeting) migrated_env)))
     ''credibility_score''"
  using repeated_content_is_recomputed [OF greeting_facts migrated_admin, of 0 10]
    greeting_facts migrated_admin
  by simp

subsection \<open>C5: empty content\<close>

text \<open>
  Claim C5. A \<^verbatim>\<open>POST\<close> to the analyze operation whose body has no \<^verbatim>\<open>content\<close> member,
  or has the empty string there, fails with the invalid-input error (status 400,
  \<^verbatim>\<open>Content required\<close>) given to the caller as it is, and persists nothing: the cache and
  the database are the ones before the call.
\<close>

theorem analysis_rejects_empty_content:
  assumes "req_method request = ''POST''" and "req_body request = Some data"
    and "get_prop data ''content'' = Inr c" and "c = None \<or> c = Some (JStr [])"
  shows "handleAnalysis now request env =
           (jsonResponse (JObj [(''error'', JStr ''Content required'')]) 400, env)"
  using assms by (auto simp add: handleAnalysis_def or_else_def)

theorem analysis_rejects_empty_content_witness:
  "req_method (analyze_post (JObj [(''content'', JStr [])])) = ''POST'' \<and>
   req_body (analyze_post (JObj [(''content'', JStr [])])) = Some (JObj [(''content'', JStr [])]) \<and>
   get_prop (JObj [(''content'', JStr [])]) ''content'' = Inr (Some (JStr [])) \<and>
   handleAnalysis 7 (analyze_post (JObj [(''content'', JStr [])])) migrated_env =
     (\<lparr>res_status = 400, res_body = JObj [(''error'', JStr ''Content required'')]\<rparr>,
      migrated_env) \<and>
   req_method (analyze_post (JObj [(''user_id'', JNum 1)])) = ''POST'' \<and>
   req_body (analyze_post (JObj [(''user_id'', JNum 1)])) = Some (JObj [(''user_id'', JNum 1)]) \<and>
   get_prop (JObj [(''user_id'', JNum 1)]) ''content'' = Inr None \<and>
   handleAnalysis 7 (analyze_post (JObj [(''user_id'', JNum 1)])) migrated_env =
     (\<lparr>res_status = 400, res_body = JObj [(''error'', JStr ''Content required'')]\<rparr>,
      migrated_env)"
proof -
  have h1: "req_method (analyze_post (JObj [(''content'', JStr [])])) = ''POST''"
    and h2: "req_body (analyze_post (JObj [(''content'', JStr [])])) =
               Some (JObj [(''content'', JStr [])])"
    and m1: "req_method (analyze_post (JObj [(''user_id'', JNum 1)])) = ''POST''"
    and m2: "req_body (analyze_post (JObj [(''user_id'', JNum 1)])) =
               Some (JObj [(''user_id'', JNum 1)])"
    by (simp_all add: analyze_post_def)
  have h3: "get_prop (JObj [(''content'', JStr [])]) ''content'' = Inr (Some (JStr []))"
    and m3: "get_prop (JObj [(''user_id'', JNum 1)]) ''content'' = Inr None"
    by simp_all
  have h4: "Some (JStr []) = None \<or> Some (JStr []) = Some (JStr [])"
    and m4: "(None :: json option) = None \<or> None = Some (JStr [])"
    by simp_all
  from analysis_rejects_empty_content [OF h1 h2 h3 h4, of 7 migrated_env]
    analysis_rejects_empty_content [OF m1 m2 m3 m4, of 7 migrated_env]
    h1 h2 h3 m1 m2 m3
  show ?thesis by (simp add: jsonResponse_def)
qed

subsection \<open>C6: appending to the history\<close>



subsection \<open>C7: the ranges of score and confidence\<close>

text \<open>
  Claim C7, as stated, fails. The score that the content \<^verbatim>\<open>hello\<close> gets, 0.75, is not
  a whole number from 0 to 100.
\<close>

theorem integer_score_counterexample:
  "res_status (fst (handleAnalysis 0 (analyze_post greeting) migrated_env)) = 200 \<and>
   \<not> spec_integer_score
       (obj_get (res_body (fst (handleAnalysis 0 (analyze_post greeting) migrated_env)))
          ''credibility_score'')"
  by (simp add: greeting_response spec_integer_score_def)

text \<open>
  Claim C7, amended. Every score that the analyze operation returns is a fraction
  between 0 and 1, namely 0.35 or 0.75 and never a whole number, and the confidence it
  returns is 0.85, between 0 and 1.
\<close>

theorem score_and_confidence_ranges:
  assumes "res_status (fst (handleAnalysis now request env)) = 200"
  shows "\<exists>x c. obj_get (res_body (fst (handleAnalysis now request env))) ''credibility_score'' =
                 Some (JNum x) \<and>
               (x = 0.35 \<or> x = 0.75) \<and> 0 \<le> x \<and> x \<le> 1 \<and> x \<noteq> of_int \<lfloor>x\<rfloor> \<and>
               obj_get (res_body (fst (handleAnalysis now request env))) ''confidence'' =
                 Some (JNum c) \<and>
               c = 0.85 \<and> 0 \<le> c \<and> c \<le> 1"
proof -
  from handleAnalysis_200 [OF assms] obtain s where
    "res_body (fst (handleAnalysis now request env)) =
       JObj [(''post_id'',
                JNum (of_int (next_rowid (posts_seq (DB env)) (map p_id (posts (DB env)))))),
             (''credibility_score'', JNum (credibilityScore s)),
             (''is_misinformation'', JBool (foundSuspicious s)),
             (''confidence'', JNum 0.85),
             (''recommendation'', JStr (recommendation (foundSuspicious s)))]"
    by blast
  then show ?thesis
    by (intro exI [of _ "credibilityScore s"] exI [of _ "0.85"])
      (simp add: credibilityScore_def)
qed

theorem score_and_confidence_ranges_witness:
  "res_status (fst (handleAnalysis 0 (analyze_post clickbait) migrated_env)) = 200 \<and>
   obj_get (res_body (fst (handleAnalysis 0 (analyze_post clickbait) migrated_env)))
     ''credibility_score'' = Some (JNum 0.35) \<and>
   obj_get (res_body (fst (handleAnalysis 0 (analyze_post clickbait) migrated_env)))
     ''confidence'' = Some (JNum 0.85)"
proof -
  have h: "res_status (fst (handleAnalysis 0 (analyze_post clickbait) migrated_env)) = 200"
    by (simp add: clickbait_response)
  from score_and_confidence_ranges [OF h] h show ?thesis
    by (simp add: clickbait_response)
qed

subsection \<open>C8: the fingerprint\<close>

text \<open>
  Claim C8, as stated, fails. The contents \<^verbatim>\<open>Aa\<close> and \<^verbatim>\<open>BB\<close> differ and have the same
  fingerprint.
\<close>

theorem hashString_collision: "hashString ''Aa'' = hashString ''BB'' \<and> ''Aa'' \<noteq> ''BB''"
  by (simp add: hashString_def hash_round_def)

text \<open>
  Claim C8, amended. The fingerprint is a function of the content alone, so equal
  contents have equal fingerprints. It is the absolute value of the 32-bit wrap-around
  polynomial \<open>h := 31 * h + code unit\<close>, a number from 0 to \<open>2 ^ 31\<close>, and it does not
  determine the content: any two contents that differ only in beginning with \<^verbatim>\<open>Aa\<close> or
  with \<^verbatim>\<open>BB\<close> share their fingerprint.
\<close>

theorem hashString_wraparound_polynomial:
  "hashString s = \<bar>sint (foldl (\<lambda>h c. 31 * h + of_nat (of_char c)) (0 :: 32 word) s)\<bar> \<and>
   0 \<le> hashString s \<and> hashString s \<le> 2 ^ 31 \<and>
   hashString (''Aa'' @ s) = hashString (''BB'' @ s)"
proof -
  have "hash_loop 0 ''Aa'' = hash_loop 0 ''BB''"
    by (simp add: hash_round_def)
  then have "hash_loop 0 (''Aa'' @ s) = hash_loop 0 (''BB'' @ s)"
    by (simp only: hash_loop_append)
  then show ?thesis
    using hashString_range [of s] by (simp add: hashString_def hash_loop_foldl)
qed

text \<open>
  Two instances: a pair of colliding contents, and a content whose 32-bit hash is
  \<open>- 2 ^ 31\<close>, so that its fingerprint is \<open>2 ^ 31\<close>.
\<close>

theorem hashString_wraparound_polynomial_witness:
  "hashString ''Aardvark'' = hashString ''BBrdvark'' \<and>
   hashString ''polygenelubricants'' = 2 ^ 31"
proof -
  have "hashString ''polygenelubricants'' = 2 ^ 31"
    by (simp add: hashString_def hash_round_def)
  with hashString_wraparound_polynomial [of "''rdvark''"] show ?thesis
    by simp
qed

subsection \<open>C9: the keyword rule\<close>

text \<open>
  Claim C9. For a \<^verbatim>\<open>POST\<close> whose content is a non-empty string, on behalf of a user the
  database knows, the analyze operation answers 200 with \<^verbatim>\<open>credibility_score\<close> 0.35 if
  the lowercased content contains one of \<^verbatim>\<open>click here\<close>, \<^verbatim>\<open>act now\<close>,
  \<^verbatim>\<open>limited time\<close>, \<^verbatim>\<open>guaranteed\<close>, \<^verbatim>\<open>free money\<close>, and 0.75 otherwise;
  \<^verbatim>\<open>is_misinformation\<close> is true exactly in the first case, in the response and in the
  row added to \<^verbatim>\<open>analysis_results\<close>, and the confidence is 0.85 in both.
\<close>

theorem analysis_score_by_keyword:
  assumes "req_method request = ''POST''" and "req_body request = Some data"
    and "get_prop data ''content'' = Inr (Some (JStr s))" and "s \<noteq> []"
    and "bind_integer (userId_of data) = Some uid" and "uid \<in> set (users (DB env))"
  shows "res_status (fst (handleAnalysis now request env)) = 200 \<and>
         obj_get (res_body (fst (handleAnalysis now request env))) ''credibility_score'' =
           Some (JNum (if has_suspicious_keyword s then 0.35 else 0.75)) \<and>
         obj_get (res_body (fst (handleAnalysis now request env))) ''is_misinformation'' =
           Some (JBool (has_suspicious_keyword s)) \<and>
         obj_get (res_body (fst (handleAnalysis now request env))) ''confidence'' =
           Some (JNum 0.85) \<and>
         (\<exists>row. analysis_results (DB (snd (handleAnalysis now request env))) =
                  analysis_results (DB env) @ [row] \<and>
                a_credibility_score row = (if has_suspicious_keyword s then 0.35 else 0.75) \<and>
                a_is_misinformation row = Some (if has_suspicious_keyword s then 1 else 0) \<and>
                a_confidence row = Some 0.85)"
  unfolding handleAnalysis_ok [OF assms] handleAnalysis_stores(2) [OF assms]
  by (simp add: jsonResponse_def credibilityScore_def foundSuspicious_keyword)

theorem analysis_score_by_keyword_witness:
  "req_method (analyze_post clickbait) = ''POST'' \<and>
   req_body (analyze_post clickbait) = Some clickbait \<and>
   get_prop clickbait ''content'' = Inr (Some (JStr ''CLICK HERE to win'')) \<and>
   bind_integer (userId_of clickbait) = Some 1 \<and> 1 \<in> set (users (DB migrated_env)) \<and>
   res_status (fst (handleAnalysis 0 (analyze_post clickbait) migrated_env)) = 200 \<and>
   obj_get (res_body (fst (handleAnalysis 0 (analyze_post clickbait) migrated_env)))
     ''credibility_score'' = Some (JNum 0.35) \<and>
   obj_get (res_body (fst (handleAnalysis 0 (analyze_post clickbait) migrated_env)))
     ''is_misinformation'' = Some (JBool True)"
proof -
  have kw: "has_suspicious_keyword ''CLICK HERE to win''"
    using clickbait_found by (simp add: foundSuspicious_keyword)
  from analysis_score_by_keyword [OF clickbait_facts migrated_admin, of 0] kw
    clickbait_facts migrated_admin
  show ?thesis by simp
qed

subsection \<open>C10: reading the posts\<close>

text \<open>
  Claim C10. The posts read does not depend on the caller: any two \<^verbatim>\<open>GET\<close> requests
  against the same database get the same response, whatever their path, query string,
  headers or body. The response lists posts of the fixed user 1 only, each a row of the
  \<^verbatim>\<open>posts\<close> table, at most 20 of them, by creation time descending, with their count.
\<close>

theorem posts_read_ignores_caller:
  assumes "req_method r1 = ''GET''" and "req_method r2 = ''GET''"
  shows "handlePosts r1 env = handlePosts r2 env \<and>
         handlePosts r1 env =
           jsonResponse
             (JObj [(''posts'', JArr (map row_json (select_posts (DB env) 1))),
                    (''count'', JNum (of_nat (length (select_posts (DB env) 1))))]) 200 \<and>
         length (select_posts (DB env) 1) \<le> 20 \<and>
         (\<forall>r \<in> set (select_posts (DB env) 1).
             fst r \<in> set (posts (DB env)) \<and> p_user_id (fst r) = 1) \<and>
         sorted_wrt (\<lambda>x y. p_created_at (fst x) \<ge> p_created_at (fst y))
           (select_posts (DB env) 1)"
  using assms
  by (simp add: handlePosts_def Let_def select_posts_limit select_posts_ordered
        select_posts_rows)

theorem posts_read_ignores_caller_witness:
  "req_method (posts_get ''?user_id=2&limit=100'' ''token_2_1700000000000'') = ''GET'' \<and>
   req_method (posts_get [] ''token_1_1700000000000'') = ''GET'' \<and>
   handlePosts (posts_get ''?user_id=2&limit=100'' ''token_2_1700000000000'') two_user_env =
     handlePosts (posts_get [] ''token_1_1700000000000'') two_user_env \<and>
   map (\<lambda>r. p_id (fst r)) (select_posts (DB two_user_env) 1) = [3, 1]"
proof -
  have h1: "req_method (posts_get ''?user_id=2&limit=100'' ''token_2_1700000000000'') = ''GET''"
    and h2: "req_method (posts_get [] ''token_1_1700000000000'') = ''GET''"
    by (simp_all add: posts_get_def)
  have rows: "map (\<lambda>r. p_id (fst r)) (select_posts (DB two_user_env) 1) = [3, 1]"
    by (simp add: select_posts_def two_user_env_def left_join_def)
  from posts_read_ignores_caller [OF h1 h2, of two_user_env] h1 h2 rows
  show ?thesis by simp
qed

end
